theory Spec2Isabelle
  imports Main
begin

section \<open>Data model (types.ts)\<close>

text \<open>
  Strings are lists of 8-bit characters: a JavaScript string whose code units are all
  below 256 is the same list. The fields \<open>id\<close>, \<open>email\<close> and \<open>created_at\<close> occur in
  two interfaces and carry a suffix; \<open>total\<close> is a constant of HOL and carries one too.

  The interface declares \<open>name\<close> and \<open>phone\<close> as \<open>string\<close>, but the list is stored as
  \<open>fetchAll\<close> delivers it and the component reads both fields through \<open>?.\<close>: at run time
  either may be \<open>null\<close>, which is \<open>None\<close> here.
\<close>

datatype CustomerStatus = ACTIVE | INACTIVE | PENDING

record Customer =
  id_c :: string
  empresa_id :: string
  name :: "string option"
  phone :: "string option"
  email_c :: string
  registration_date :: string
  status :: CustomerStatus
  observations :: string
  is_deleted :: bool
  created_at_c :: string
  created_by :: string

record UserProfile =
  id_p :: string
  email_p :: string
  company_name :: string
  responsible_name :: string
  accepted_terms :: bool
  created_at_p :: string

record AuthState =
  isLoggedIn :: bool
  profile :: "UserProfile option"
  loading :: bool

record AppStats =
  total_s :: nat
  active :: nat
  inactive :: nat

section \<open>Component state and the world around it (App.tsx, lines 13 to 21)\<close>

datatype notify_type = success | error

record Notification =
  message :: string
  type :: notify_type

datatype auth_mode = login | signup

record AuthForm =
  email_f :: string
  password :: string
  companyName :: string
  responsibleName :: string
  terms :: bool

text \<open>The argument of \<open>customerService.save\<close>: a partial customer, its \<open>id\<close> possibly undefined.\<close>

record Payload =
  p_id :: "string option"
  p_empresa_id :: string
  p_name :: string
  p_phone :: string
  p_email :: string
  p_status :: CustomerStatus
  p_registration_date :: string
  p_observations :: string
  p_created_by :: string
  p_is_deleted :: bool

text \<open>The fields that \<open>handleSaveCustomer\<close> reads from the submitted form.\<close>

record FormData =
  fd_name :: string
  fd_phone :: string
  fd_email :: string
  fd_status :: CustomerStatus
  fd_date :: string
  fd_observations :: string

text \<open>A thrown value; \<open>err_message\<close> is its \<open>message\<close> property, \<open>None\<close> when undefined.\<close>

datatype js_error = JsError (err_message: "string option")

text \<open>
  The two services (\<open>./services/api\<close>, \<open>./lib/supabase\<close>) and the browser are outside
  the component. Each call is logged, and its outcome is read from an environment:
  \<open>Inl\<close> is a rejected promise, \<open>Inr\<close> a fulfilled one. \<open>getSession\<close> answers with the
  id of the session's user, if there is a session with a user. \<open>confirm\<close> is the answer
  of \<open>window.confirm\<close>.
\<close>

datatype service_call =
    GetSession
  | GetProfile string
  | SignUp string string string string
  | SignIn string string
  | SignOut
  | FetchAll string
  | Save Payload
  | HardDelete string string

record env =
  getSession :: "js_error + string option"
  getProfile :: "string \<Rightarrow> js_error + UserProfile"
  signUp :: "string \<Rightarrow> string \<Rightarrow> string \<Rightarrow> string \<Rightarrow> js_error + unit"
  signIn :: "string \<Rightarrow> string \<Rightarrow> js_error + unit"
  signOut :: "js_error + unit"
  fetchAll :: "string \<Rightarrow> js_error + Customer list"
  save :: "Payload \<Rightarrow> js_error + unit"
  hardDelete :: "string \<Rightarrow> string \<Rightarrow> js_error + unit"
  confirm :: bool

text \<open>
  What an operation does besides changing the state, in order: the writes of the busy
  flag and the service calls.
\<close>

datatype effect = SetLoading bool | Call service_call

text \<open>
  The state variables of the component, in the order of their \<open>useState\<close> calls (the
  busy flag \<open>loading\<close> is \<open>loading_app\<close>, since \<open>AuthState\<close> has a field \<open>loading\<close>), and
  three fields of the model: the due times of the pending \<open>setTimeout\<close> callbacks, the
  current time (both in milliseconds) and the effects so far.
\<close>

record app =
  auth :: AuthState
  customers :: "Customer list"
  search :: string
  showForm :: bool
  editingCustomer :: "Customer option"
  authMode :: auth_mode
  authForm :: AuthForm
  loading_app :: bool
  notification :: "Notification option"
  timers :: "nat list"
  clock :: nat
  trace :: "effect list"

definition initial_app :: app where
  "initial_app =
     \<lparr> auth = \<lparr> isLoggedIn = False, profile = None, loading = True \<rparr>,
       customers = [],
       search = [],
       showForm = False,
       editingCustomer = None,
       authMode = login,
       authForm = \<lparr> email_f = [], password = [], companyName = [],
                    responsibleName = [], terms = False \<rparr>,
       loading_app = False,
       notification = None,
       timers = [],
       clock = 0,
       trace = [] \<rparr>"

definition setLoading :: "bool \<Rightarrow> app \<Rightarrow> app" where
  "setLoading b s = s\<lparr> loading_app := b, trace := trace s @ [SetLoading b] \<rparr>"

definition logCall :: "service_call \<Rightarrow> app \<Rightarrow> app" where
  "logCall c s = s\<lparr> trace := trace s @ [Call c] \<rparr>"

section \<open>Notifications (App.tsx, lines 86 to 89)\<close>

text \<open>
  \<open>showNotify\<close> shows the message and schedules a callback 4000 ms later; no callback
  is ever cancelled. \<open>advance t\<close> lets the time reach \<open>t\<close>: the callbacks due by then
  run, each setting the notification to \<open>null\<close>.
\<close>

definition showNotify :: "string \<Rightarrow> notify_type \<Rightarrow> app \<Rightarrow> app" where
  "showNotify m k s =
     s\<lparr> notification := Some \<lparr> message = m, type = k \<rparr>,
        timers := timers s @ [clock s + 4000] \<rparr>"

definition advance :: "nat \<Rightarrow> app \<Rightarrow> app" where
  "advance t s =
     s\<lparr> notification := (if filter (\<lambda>d. d \<le> t) (timers s) = [] then notification s else None),
        timers := filter (\<lambda>d. \<not> d \<le> t) (timers s),
        clock := max (clock s) t \<rparr>"

section \<open>Session store (App.tsx, lines 24 to 68)\<close>

definition setAuth :: "AuthState \<Rightarrow> app \<Rightarrow> app" where
  "setAuth a s = s\<lparr> auth := a \<rparr>"

definition setCustomers :: "Customer list \<Rightarrow> app \<Rightarrow> app" where
  "setCustomers cs s = s\<lparr> customers := cs \<rparr>"

text \<open>
  \<open>initializeAuth\<close> reads the variable \<open>mounted\<close> of the effect twice: after
  \<open>getSession\<close> has answered (\<open>m_session\<close>) and in the \<open>catch\<close> block (\<open>m_catch\<close>); the
  cleanup of the effect may have run in between. One \<open>try\<close> covers both calls.
\<close>

definition initializeAuth :: "env \<Rightarrow> bool \<Rightarrow> bool \<Rightarrow> app \<Rightarrow> app" where
  "initializeAuth sv m_session m_catch s =
     (let s1 = logCall GetSession s;
          caught = (\<lambda>s'. if m_catch
                      then setAuth \<lparr> isLoggedIn = False, profile = None, loading = False \<rparr> s'
                      else s')
      in case getSession sv of
           Inl e \<Rightarrow> caught s1
         | Inr session \<Rightarrow>
             (case session of
                Some uid \<Rightarrow>
                  if m_session then
                    (let s2 = logCall (GetProfile uid) s1
                     in case getProfile sv uid of
                          Inl e \<Rightarrow> caught s2
                        | Inr p \<Rightarrow>
                            setAuth \<lparr> isLoggedIn = True, profile = Some p, loading = False \<rparr> s2)
                  else s1
              | None \<Rightarrow>
                  if m_session
                  then setAuth \<lparr> isLoggedIn = False, profile = None, loading = False \<rparr> s1
                  else s1))"

text \<open>
  The events of \<open>supabase.auth.onAuthStateChange\<close>; the handler names four of them.
  The second argument of the handler is the id of the session's user, if any.
\<close>

datatype auth_event = SIGNED_IN | SIGNED_OUT | USER_DELETED | TOKEN_REFRESHED | OTHER_EVENT

definition onAuthStateChange :: "env \<Rightarrow> bool \<Rightarrow> auth_event \<Rightarrow> string option \<Rightarrow> app \<Rightarrow> app" where
  "onAuthStateChange sv mounted event session s =
     (if \<not> mounted then s
      else if event = SIGNED_IN \<and> session \<noteq> None then
        (case session of
           None \<Rightarrow> s
         | Some uid \<Rightarrow>
             (let s1 = logCall (GetProfile uid) s
              in case getProfile sv uid of
                   Inr p \<Rightarrow> setAuth \<lparr> isLoggedIn = True, profile = Some p, loading = False \<rparr> s1
                 | Inl e \<Rightarrow> setAuth \<lparr> isLoggedIn = True, profile = None, loading = False \<rparr> s1))
      else if event = SIGNED_OUT \<or> event = USER_DELETED then
        setCustomers [] (setAuth \<lparr> isLoggedIn = False, profile = None, loading = False \<rparr> s)
      else if event = TOKEN_REFRESHED \<and> session \<noteq> None then
        setAuth ((auth s)\<lparr> isLoggedIn := True \<rparr>) s
      else s)"

section \<open>Customer synchronizer and controller (App.tsx, lines 76 to 184)\<close>

definition loadCustomers :: "env \<Rightarrow> app \<Rightarrow> app" where
  "loadCustomers sv s =
     (case profile (auth s) of
        None \<Rightarrow> s
      | Some p \<Rightarrow>
          (let s1 = logCall (FetchAll (id_p p)) s
           in case fetchAll sv (id_p p) of
                Inr data \<Rightarrow> setCustomers data s1
              | Inl err \<Rightarrow> showNotify ''Falha ao carregar lista de clientes.'' error s1))"

definition msg_terms :: string where
  "msg_terms = ''Voc'' @ [CHR 0xEA] @ '' precisa aceitar os termos da LGPD.''"

definition msg_signed_up :: string where
  "msg_signed_up = ''Cadastro realizado! Se o e-mail de confirma'' @ [CHR 0xE7, CHR 0xE3]
     @ ''o estiver ativo, verifique sua caixa de entrada.''"

definition msg_auth_failed :: string where
  "msg_auth_failed = ''Erro ao processar autentica'' @ [CHR 0xE7, CHR 0xE3] @ ''o.''"

definition msg_saved :: string where
  "msg_saved = ''Altera'' @ [CHR 0xE7, CHR 0xF5] @ ''es salvas com sucesso.''"

definition msg_deleted :: string where
  "msg_deleted = ''Cliente exclu'' @ [CHR 0xED] @ ''do permanentemente.''"


text \<open>The \<open>catch\<close> block of \<open>handleAuth\<close>: \<open>err.message || '...'\<close>, the empty string being falsy.\<close>

definition catch_auth :: "js_error \<Rightarrow> app \<Rightarrow> app" where
  "catch_auth err s =
     showNotify (case err_message err of
                   None \<Rightarrow> msg_auth_failed
                 | Some m \<Rightarrow> if m = [] then msg_auth_failed else m) error s"

definition handleAuth :: "env \<Rightarrow> app \<Rightarrow> app" where
  "handleAuth sv s =
     (if loading_app s then s
      else
        let s1 = setLoading True s;
            f = authForm s1;
            s2 = (if authMode s1 = signup then
                    (if \<not> terms f then catch_auth (JsError (Some msg_terms)) s1
                     else
                       let s' = logCall (SignUp (email_f f) (password f) (companyName f)
                                           (responsibleName f)) s1
                       in case signUp sv (email_f f) (password f) (companyName f)
                                 (responsibleName f) of
                            Inl err \<Rightarrow> catch_auth err s'
                          | Inr u \<Rightarrow> (showNotify msg_signed_up success s')\<lparr> authMode := login \<rparr>)
                  else
                    (let s' = logCall (SignIn (email_f f) (password f)) s1
                     in case signIn sv (email_f f) (password f) of
                          Inl err \<Rightarrow> catch_auth err s'
                        | Inr u \<Rightarrow> showNotify ''Bem-vindo de volta!'' success s'))
        in setLoading False s2)"

text \<open>The object \<open>payload\<close> that \<open>handleSaveCustomer\<close> builds (lines 134 to 145).\<close>

definition payload :: "Customer option \<Rightarrow> UserProfile \<Rightarrow> FormData \<Rightarrow> Payload" where
  "payload editing p fd =
     \<lparr> p_id = map_option id_c editing,
       p_empresa_id = id_p p,
       p_name = fd_name fd,
       p_phone = fd_phone fd,
       p_email = fd_email fd,
       p_status = fd_status fd,
       p_registration_date = fd_date fd,
       p_observations = fd_observations fd,
       p_created_by = id_p p,
       p_is_deleted = False \<rparr>"

definition handleSaveCustomer :: "env \<Rightarrow> FormData \<Rightarrow> app \<Rightarrow> app" where
  "handleSaveCustomer sv fd s =
     (case profile (auth s) of
        None \<Rightarrow> s
      | Some p \<Rightarrow>
          (let s1 = setLoading True s;
               pl = payload (editingCustomer s1) p fd;
               s2 = logCall (Save pl) s1;
               s3 = (case save sv pl of
                       Inl err \<Rightarrow> showNotify ''Erro ao salvar no servidor.'' error s2
                     | Inr u \<Rightarrow>
                         showNotify msg_saved success
                           ((loadCustomers sv s2)\<lparr> showForm := False, editingCustomer := None \<rparr>))
           in setLoading False s3))"

definition handleDelete :: "env \<Rightarrow> string \<Rightarrow> app \<Rightarrow> app" where
  "handleDelete sv i s =
     (case profile (auth s) of
        None \<Rightarrow> s
      | Some p \<Rightarrow>
          if \<not> confirm sv then s
          else
            let s1 = setLoading True s;
                s2 = logCall (HardDelete i (id_p p)) s1;
                s3 = (case hardDelete sv i (id_p p) of
                        Inr u \<Rightarrow>
                          showNotify msg_deleted success
                            (setCustomers (filter (\<lambda>c. id_c c \<noteq> i) (customers s2)) s2)
                      | Inl err \<Rightarrow> showNotify ''Falha ao deletar registro.'' error s2)
            in setLoading False s3)"


section \<open>View derivation (App.tsx, lines 91 to 102)\<close>







definition stats :: "Customer list \<Rightarrow> AppStats" where
  "stats cs =
     \<lparr> total_s = length cs,
       active = length (filter (\<lambda>c. status c = ACTIVE) cs),
       inactive = length (filter (\<lambda>c. status c \<noteq> ACTIVE) cs) \<rparr>"

section \<open>Reading the effects of an operation\<close>

text \<open>The effects that a run from \<open>s\<close> to \<open>s'\<close> has added.\<close>

definition new_effects :: "app \<Rightarrow> app \<Rightarrow> effect list" where
  "new_effects s s' = drop (length (trace s)) (trace s')"



text \<open>The value that the session takes when it is logged out.\<close>

definition logged_out :: AuthState where
  "logged_out = \<lparr> isLoggedIn = False, profile = None, loading = False \<rparr>"

text \<open>
  Two calls of \<open>showNotify\<close>: the first in \<open>s\<close>, at the time \<open>clock s\<close>, the second once
  the time has reached \<open>t2\<close>.
\<close>

definition notify_twice ::
    "string \<Rightarrow> notify_type \<Rightarrow> nat \<Rightarrow> string \<Rightarrow> notify_type \<Rightarrow> app \<Rightarrow> app" where
  "notify_twice m1 k1 t2 m2 k2 s = showNotify m2 k2 (advance t2 (showNotify m1 k1 s))"

section \<open>Concrete inputs\<close>

definition profile0 :: UserProfile where
  "profile0 = \<lparr> id_p = ''u1'', email_p = ''ana@example.com'', company_name = ''Acme'',
       responsible_name = ''Ana'', accepted_terms = True, created_at_p = ''2024-01-01'' \<rparr>"

definition ana :: Customer where
  "ana = \<lparr> id_c = ''c1'', empresa_id = ''u1'', name = Some ''Ana'', phone = Some ''11999'',
       email_c = ''ana@example.com'', registration_date = ''2024-01-02'', status = ACTIVE,
       observations = [], is_deleted = False, created_at_c = ''2024-01-02'',
       created_by = ''u1'' \<rparr>"

definition bob :: Customer where
  "bob = \<lparr> id_c = ''c2'', empresa_id = ''u1'', name = Some ''Bob'', phone = Some ''22888'',
       email_c = ''bob@example.com'', registration_date = ''2024-01-03'', status = PENDING,
       observations = [], is_deleted = False, created_at_c = ''2024-01-03'',
       created_by = ''u1'' \<rparr>"


definition fd0 :: FormData where
  "fd0 = \<lparr> fd_name = ''Caio'', fd_phone = ''33777'', fd_email = ''caio@example.com'',
       fd_status = INACTIVE, fd_date = ''2024-02-01'', fd_observations = [] \<rparr>"

text \<open>A world in which every call succeeds, and one in which every call after \<open>getSession\<close> fails.\<close>

definition env_ok :: env where
  "env_ok = \<lparr> getSession = Inr (Some ''u1''), getProfile = (\<lambda>u. Inr profile0),
       signUp = (\<lambda>e p c r. Inr ()), signIn = (\<lambda>e p. Inr ()), signOut = Inr (),
       fetchAll = (\<lambda>t. Inr [ana, bob]), save = (\<lambda>p. Inr ()),
       hardDelete = (\<lambda>i t. Inr ()), confirm = True \<rparr>"

definition env_fail :: env where
  "env_fail = \<lparr> getSession = Inr (Some ''u1''), getProfile = (\<lambda>u. Inl (JsError None)),
       signUp = (\<lambda>e p c r. Inl (JsError None)), signIn = (\<lambda>e p. Inl (JsError None)),
       signOut = Inl (JsError None), fetchAll = (\<lambda>t. Inl (JsError None)),
       save = (\<lambda>p. Inl (JsError None)), hardDelete = (\<lambda>i t. Inl (JsError None)),
       confirm = True \<rparr>"

definition logged_in_app :: app where
  "logged_in_app = initial_app\<lparr> auth := \<lparr> isLoggedIn = True, profile = Some profile0,
       loading = False \<rparr>, customers := [ana, bob] \<rparr>"

definition signup_app :: app where
  "signup_app = initial_app\<lparr> authMode := signup \<rparr>"






section \<open>Properties of the derived views\<close>






text \<open>
  C9. For every customer list \<open>L\<close>, the active and inactive counts of \<open>stats L\<close> add up to
  its total; the total is the length of \<open>L\<close>, the active count is the number of records
  whose status is \<open>ACTIVE\<close>, and every other status (\<open>INACTIVE\<close>, \<open>PENDING\<close>) is counted
  as inactive.
\<close>

theorem stats_partition:
  "active (stats L) + inactive (stats L) = total_s (stats L)
   \<and> total_s (stats L) = length L
   \<and> active (stats L) = length (filter (\<lambda>c. status c = ACTIVE) L)
   \<and> inactive (stats L) = length (filter (\<lambda>c. status c \<in> {INACTIVE, PENDING}) L)"
proof -
  have "(status c \<noteq> ACTIVE) = (status c \<in> {INACTIVE, PENDING})" for c :: Customer
    by (cases "status c") simp_all
  then have ne: "(\<lambda>c :: Customer. status c \<noteq> ACTIVE) = (\<lambda>c. status c \<in> {INACTIVE, PENDING})"
    by (intro ext)
  have parts: "length (filter (\<lambda>c. status c = ACTIVE) L)
      + length (filter (\<lambda>c. status c \<noteq> ACTIVE) L) = length L"
    by (rule sum_length_filter_compl)
  have inact: "inactive (stats L) = length (filter (\<lambda>c. status c \<noteq> ACTIVE) L)"
    by (simp add: stats_def)
  show ?thesis
    using parts inact unfolding ne by (simp add: stats_def)
qed

section \<open>Session store\<close>

text \<open>
  What the one \<open>catch\<close> block of \<open>initializeAuth\<close> does: with the component mounted at
  both reads of \<open>mounted\<close>, a failed profile fetch for a present session ends logged out,
  and every startup path clears the \<open>loading\<close> flag of the session.
\<close>

lemma initializeAuth_catch_all:
  assumes "m_session" and "m_catch"
  shows "(getSession sv = Inr (Some uid) \<and> getProfile sv uid = Inl e
            \<longrightarrow> auth (initializeAuth sv m_session m_catch s) = logged_out)
         \<and> \<not> loading (auth (initializeAuth sv m_session m_catch s))"
  using assms
  by (auto simp: initializeAuth_def setAuth_def logCall_def logged_out_def Let_def
           split: sum.splits option.splits)

text \<open>
  C1 asks that a startup with a session present and a failing profile fetch ends logged
  in without a profile, the \<open>loading\<close> flag cleared. The code does not do that: with a
  session for the user \<open>u1\<close> and a \<open>getProfile\<close> that throws, \<open>initializeAuth\<close> ends
  logged out (\<open>isLoggedIn\<close> false), while the handler of \<open>SIGNED_IN\<close>, on the same
  failure, ends with \<open>isLoggedIn\<close> true and no profile.
\<close>

theorem initializeAuth_profile_failure:
  "getSession env_fail = Inr (Some ''u1'')
   \<and> getProfile env_fail ''u1'' = Inl (JsError None)
   \<and> auth (initializeAuth env_fail True True initial_app) = logged_out
   \<and> \<not> isLoggedIn (auth (initializeAuth env_fail True True initial_app))
   \<and> auth (onAuthStateChange env_fail True SIGNED_IN (Some ''u1'') initial_app)
       = \<lparr> isLoggedIn = True, profile = None, loading = False \<rparr>"
  by (simp add: env_fail_def initializeAuth_def onAuthStateChange_def setAuth_def logCall_def
        logged_out_def Let_def)

text \<open>
  C3. In every state in which the user is logged in with a loaded profile, the event
  \<open>TOKEN_REFRESHED\<close> leaves \<open>isLoggedIn\<close> true and changes no other field of the session:
  the profile and the \<open>loading\<close> flag are those held before, and no call (so no profile
  fetch) is made. This holds whatever the session argument and the \<open>mounted\<close> flag are.
\<close>

theorem tokenRefreshed_frame:
  assumes "isLoggedIn (auth s)" and "profile (auth s) = Some p"
  shows "isLoggedIn (auth (onAuthStateChange sv mounted TOKEN_REFRESHED session s))
         \<and> profile (auth (onAuthStateChange sv mounted TOKEN_REFRESHED session s)) = Some p
         \<and> loading (auth (onAuthStateChange sv mounted TOKEN_REFRESHED session s))
             = loading (auth s)
         \<and> auth (onAuthStateChange sv mounted TOKEN_REFRESHED session s)
             = (auth s)\<lparr> isLoggedIn := True \<rparr>
         \<and> trace (onAuthStateChange sv mounted TOKEN_REFRESHED session s) = trace s"
  using assms by (simp add: onAuthStateChange_def setAuth_def)

theorem tokenRefreshed_frame_witness:
  "isLoggedIn (auth logged_in_app)
   \<and> profile (auth logged_in_app) = Some profile0
   \<and> auth (onAuthStateChange env_ok True TOKEN_REFRESHED (Some ''u1'') logged_in_app)
       = \<lparr> isLoggedIn = True, profile = Some profile0, loading = False \<rparr>
   \<and> trace (onAuthStateChange env_ok True TOKEN_REFRESHED (Some ''u1'') logged_in_app) = []"
  using tokenRefreshed_frame [of logged_in_app profile0 env_ok True "Some ''u1''"]
  by (simp add: logged_in_app_def initial_app_def)

text \<open>
  C5. Whatever the session and the customer list were, the event \<open>SIGNED_OUT\<close> or
  \<open>USER_DELETED\<close>, handled while the subscription is live (\<open>mounted\<close> true), leaves
  \<open>isLoggedIn\<close> false, no profile and an empty customer list.
\<close>

theorem signedOut_clears:
  assumes "event = SIGNED_OUT \<or> event = USER_DELETED"
  shows "\<not> isLoggedIn (auth (onAuthStateChange sv True event session s))
         \<and> profile (auth (onAuthStateChange sv True event session s)) = None
         \<and> customers (onAuthStateChange sv True event session s) = []"
  using assms by (auto simp: onAuthStateChange_def setAuth_def setCustomers_def)

theorem signedOut_clears_witness:
  "isLoggedIn (auth logged_in_app)
   \<and> customers logged_in_app = [ana, bob]
   \<and> \<not> isLoggedIn (auth (onAuthStateChange env_ok True SIGNED_OUT None logged_in_app))
   \<and> profile (auth (onAuthStateChange env_ok True SIGNED_OUT None logged_in_app)) = None
   \<and> customers (onAuthStateChange env_ok True SIGNED_OUT None logged_in_app) = []"
  using signedOut_clears [of SIGNED_OUT env_ok None logged_in_app]
  by (simp add: logged_in_app_def initial_app_def)

section \<open>Notifications\<close>

text \<open>
  C2, as the code has it. Let no callback be pending, and let \<open>showNotify\<close> be called
  at the time \<open>clock s\<close> and again at \<open>t2\<close>, less than 4000 ms (the 4 time-units) later.
  After the second call only the second message and kind are visible; they stay visible
  until 4000 ms after the first call, and from then on nothing is visible: the callback
  of the first call clears the second notification, since no callback is cancelled.
\<close>

theorem notify_twice_expiry:
  assumes "timers s = []" and "clock s \<le> t2" and "t2 < clock s + 4000"
  shows "notification (notify_twice m1 k1 t2 m2 k2 s) = Some \<lparr> message = m2, type = k2 \<rparr>
         \<and> (t2 \<le> t \<and> t < clock s + 4000
              \<longrightarrow> notification (advance t (notify_twice m1 k1 t2 m2 k2 s))
                    = Some \<lparr> message = m2, type = k2 \<rparr>)
         \<and> (clock s + 4000 \<le> t
              \<longrightarrow> notification (advance t (notify_twice m1 k1 t2 m2 k2 s)) = None)"
  using assms by (simp add: notify_twice_def showNotify_def advance_def)

theorem notify_twice_expiry_witness:
  "notification (advance 3999
      (notify_twice ''Saving...'' success 1000 ''Failed'' error initial_app))
     = Some \<lparr> message = ''Failed'', type = error \<rparr>
   \<and> notification (advance 4000
      (notify_twice ''Saving...'' success 1000 ''Failed'' error initial_app)) = None"
  using notify_twice_expiry [of initial_app 1000 "''Saving...''" success "''Failed''" error 3999]
    notify_twice_expiry [of initial_app 1000 "''Saving...''" success "''Failed''" error 4000]
  by (simp add: initial_app_def)

text \<open>
  C2 as the specification words it lets the second notification live until 4000 ms
  after its own call. With the calls at 0 and at 1000, the second notification is
  visible after its call and is gone at 4000, before 1000 + 4000.
\<close>

theorem notify_twice_counterexample:
  "notification (notify_twice ''Saving...'' success 1000 ''Failed'' error initial_app)
     = Some \<lparr> message = ''Failed'', type = error \<rparr>
   \<and> notification (advance 4000
        (notify_twice ''Saving...'' success 1000 ''Failed'' error initial_app)) = None
   \<and> (4000::nat) < 1000 + 4000"
  by (simp add: notify_twice_def showNotify_def advance_def initial_app_def)

section \<open>Customer synchronizer and controller\<close>

text \<open>
  C4. With a profile loaded and the deletion confirmed: if \<open>hardDelete\<close> succeeds, the
  customer list becomes the prior list without the records whose id is the deleted id,
  the others unchanged and in order; if \<open>hardDelete\<close> fails, the list is as it was and an
  error notification is shown. (The id need not even occur in the list.)
\<close>

theorem handleDelete_list:
  assumes "profile (auth s) = Some p" and "confirm sv"
  shows "(hardDelete sv i (id_p p) = Inr ()
            \<longrightarrow> customers (handleDelete sv i s) = filter (\<lambda>c. id_c c \<noteq> i) (customers s))
         \<and> (hardDelete sv i (id_p p) = Inl e
            \<longrightarrow> customers (handleDelete sv i s) = customers s
                \<and> notification (handleDelete sv i s)
                    = Some \<lparr> message = ''Falha ao deletar registro.'', type = error \<rparr>)"
  using assms
  by (simp add: handleDelete_def setLoading_def logCall_def showNotify_def setCustomers_def
        Let_def)

theorem handleDelete_list_witness:
  "customers logged_in_app = [ana, bob]
   \<and> customers (handleDelete env_ok ''c1'' logged_in_app) = [bob]
   \<and> customers (handleDelete env_fail ''c1'' logged_in_app) = [ana, bob]
   \<and> notification (handleDelete env_fail ''c1'' logged_in_app)
       = Some \<lparr> message = ''Falha ao deletar registro.'', type = error \<rparr>"
  using handleDelete_list [of logged_in_app profile0 env_ok "''c1''" "JsError None"]
    handleDelete_list [of logged_in_app profile0 env_fail "''c1''" "JsError None"]
  by (simp add: logged_in_app_def initial_app_def env_ok_def env_fail_def ana_def bob_def)

text \<open>
  C6. A sign-up submitted while the busy flag is clear and with the terms flag false
  ends with the error notification of the local validation, makes no service call (its
  only effects are the two writes of the busy flag) and leaves the session unchanged.
\<close>

theorem signUp_without_terms:
  assumes "\<not> loading_app s" and "authMode s = signup" and "\<not> terms (authForm s)"
  shows "notification (handleAuth sv s) = Some \<lparr> message = msg_terms, type = error \<rparr>
         \<and> auth (handleAuth sv s) = auth s
         \<and> trace (handleAuth sv s) = trace s @ [SetLoading True, SetLoading False]
         \<and> (\<forall>c. Call c \<notin> set (new_effects s (handleAuth sv s)))"
  using assms
  by (simp add: handleAuth_def setLoading_def catch_auth_def showNotify_def msg_terms_def
        new_effects_def Let_def)

theorem signUp_without_terms_witness:
  "\<not> loading_app signup_app \<and> authMode signup_app = signup \<and> \<not> terms (authForm signup_app)
   \<and> notification (handleAuth env_ok signup_app) = Some \<lparr> message = msg_terms, type = error \<rparr>
   \<and> auth (handleAuth env_ok signup_app) = auth signup_app
   \<and> trace (handleAuth env_ok signup_app) = [SetLoading True, SetLoading False]"
  using signUp_without_terms [of signup_app env_ok]
  by (simp add: signup_app_def initial_app_def)











text \<open>
  C10. When the session has no profile, the customer save, the customer delete and the
  customer load return at once: the whole state, with its customer list, its busy flag
  and its record of service calls, is what it was.
\<close>

theorem no_profile_noop:
  assumes "profile (auth s) = None"
  shows "handleSaveCustomer sv fd s = s \<and> handleDelete sv i s = s \<and> loadCustomers sv s = s"
  using assms by (simp add: handleSaveCustomer_def handleDelete_def loadCustomers_def)

theorem no_profile_noop_witness:
  "profile (auth initial_app) = None
   \<and> handleSaveCustomer env_ok fd0 initial_app = initial_app
   \<and> handleDelete env_ok ''c1'' initial_app = initial_app
   \<and> loadCustomers env_ok initial_app = initial_app"
  using no_profile_noop [of initial_app env_ok fd0 "''c1''"]
  by (simp add: initial_app_def)

end
